theory Spec2Isabelle
  imports Complex_Main "HOL-Library.AList" "HOL-Library.Extended_Nat" "HOL-Library.Log_Nat"
    "HOL-Library.Signed_Division"
begin

section \<open>Data model (types.ts)\<close>

text \<open>
  A \<^verbatim>\<open>bigint\<close> is an \<^typ>\<open>int\<close>. In the pathfinder, the spawn optimizer and
  \<^verbatim>\<open>needsRefueling\<close>, a \<^verbatim>\<open>number\<close> that holds a fuel level, a distance or a step
  count is an \<^typ>\<open>int\<close> as well: every such value is an integer (a count, or
  \<^verbatim>\<open>Number(b)\<close> of a bigint), and the model covers the range where doubles represent
  integers exactly. The cost of a path is an \<^typ>\<open>enat\<close>, with \<open>\<infinity>\<close> for
  \<^verbatim>\<open>Infinity\<close>. The score of \<^verbatim>\<open>findBestRefuelTarget\<close> is where the rounding of doubles
  decides the result: that function and the functions it calls are modelled on doubles
  (section \<open>Numbers\<close>).
\<close>

record Position =
  x :: int
  y :: int

text \<open>The UTxO behind a pellet is an opaque reference: no modelled function inspects it.\<close>

type_synonym TransactionUnspentOutput = nat

record Pellet =
  position :: Position
  fuel :: int
  utxo :: TransactionUnspentOutput

record Ship =
  position :: Position
  fuel :: int
  tokenName :: string

datatype PathNode =
  PathNode (position: Position) (g: int) (h: int) (f: int) (parent: "PathNode option") (fuel: int)

record Path =
  nodes :: "Position list"
  totalCost :: enat
  fuelStops :: "Position list"
  success :: bool

record Speed =
  distance :: int
  time :: int

record GameConfig =
  maxSpeed :: Speed
  maxShipFuel :: int
  fuelPerStep :: int
  initialFuel :: int
  minAsteriaDistance :: int
  shipMintLovelaceFee :: int
  maxAsteriaMining :: int

definition GAME_CONFIG :: GameConfig where
  "GAME_CONFIG =
     \<lparr>maxSpeed = \<lparr>distance = 1, time = 12096000\<rparr>, maxShipFuel = 5, fuelPerStep = 1,
      initialFuel = 5, minAsteriaDistance = 50, shipMintLovelaceFee = 1000000,
      maxAsteriaMining = 50\<rparr>"

text \<open>
  The two \<^verbatim>\<open>Map<string, _>\<close> of the game state keep insertion order, which the
  iteration over \<^verbatim>\<open>values()\<close> exposes: they are association lists, written with
  \<^const>\<open>AList.update\<close> (a present key keeps its place, a new key goes last).
\<close>

record GameState =
  pellets :: "(string \<times> Pellet) list"
  ships :: "(string \<times> Ship) list"
  myShipPosition :: "Position option"
  myShipFuel :: "int option"
  config :: GameConfig

subsection \<open>Keys of positions\<close>

definition digitChar :: "nat \<Rightarrow> char" where
  "digitChar d = char_of (48 + d)"

fun natToString :: "nat \<Rightarrow> string" where
  "natToString n = (if n < 10 then [digitChar n] else natToString (n div 10) @ [digitChar (n mod 10)])"

declare natToString.simps [simp del]

text \<open>
  \<^verbatim>\<open>BigInt.prototype.toString()\<close>: decimal digits, a leading minus sign for a
  negative value.
\<close>

definition bigintToString :: "int \<Rightarrow> string" where
  "bigintToString i = (if i < 0 then CHR ''-'' # natToString (nat (- i)) else natToString (nat i))"

definition positionToKey :: "Position \<Rightarrow> string" where
  "positionToKey pos = bigintToString (x pos) @ '','' @ bigintToString (y pos)"

text \<open>
  \<^verbatim>\<open>String.prototype.split(',')\<close>: the pieces between the commas, at least one
  piece.
\<close>

fun split_string :: "char \<Rightarrow> string \<Rightarrow> string list" where
  "split_string c [] = [[]]"
| "split_string c (d # ds) =
     (if d = c then [] # split_string c ds
      else (case split_string c ds of [] \<Rightarrow> [[d]] | w # ws \<Rightarrow> (d # w) # ws))"

text \<open>
  Characters are the code units of the string below 256. The value of a digit in a
  radix up to 16, and the test of a decimal digit.
\<close>

definition digitValue :: "char \<Rightarrow> nat option" where
  "digitValue c =
     (let n = (of_char c :: nat) in
      if 48 \<le> n \<and> n \<le> 57 then Some (n - 48)
      else if 97 \<le> n \<and> n \<le> 102 then Some (n - 87)
      else if 65 \<le> n \<and> n \<le> 70 then Some (n - 55)
      else None)"

definition isDigit :: "char \<Rightarrow> bool" where
  "isDigit c = (48 \<le> (of_char c :: nat) \<and> (of_char c :: nat) \<le> 57)"

fun parseDigits :: "nat \<Rightarrow> nat \<Rightarrow> string \<Rightarrow> nat option" where
  "parseDigits radix acc [] = Some acc"
| "parseDigits radix acc (c # cs) =
     (case digitValue c of
        None \<Rightarrow> None
      | Some d \<Rightarrow> if d < radix then parseDigits radix (radix * acc + d) cs else None)"

datatype error = SyntaxError | MissingCoordinate

text \<open>A literal without its sign or prefix: at least one digit of the radix.\<close>

definition parseLiteral :: "nat \<Rightarrow> string \<Rightarrow> error + int" where
  "parseLiteral radix ds =
     (if ds = [] then Inl SyntaxError
      else (case parseDigits radix 0 ds of None \<Rightarrow> Inl SyntaxError | Some n \<Rightarrow> Inr (int n)))"

text \<open>
  White space: tab, line feed, vertical tab, form feed, carriage return, space and
  no-break space.
\<close>

definition isWhiteSpace :: "char \<Rightarrow> bool" where
  "isWhiteSpace c = ((of_char c :: nat) \<in> {9, 10, 11, 12, 13, 32, 160})"

definition trimWhiteSpace :: "string \<Rightarrow> string" where
  "trimWhiteSpace s = rev (dropWhile isWhiteSpace (rev (dropWhile isWhiteSpace s)))"

definition radixOfPrefix :: "char \<Rightarrow> nat option" where
  "radixOfPrefix c =
     (if c = CHR ''x'' \<or> c = CHR ''X'' then Some 16
      else if c = CHR ''o'' \<or> c = CHR ''O'' then Some 8
      else if c = CHR ''b'' \<or> c = CHR ''B'' then Some 2
      else None)"

text \<open>
  \<^verbatim>\<open>BigInt(s)\<close> on a string: white space around the literal is dropped; the empty
  string is 0; a decimal literal may have a sign; a literal with the prefix \<^verbatim>\<open>0x\<close>,
  \<^verbatim>\<open>0o\<close> or \<^verbatim>\<open>0b\<close> has none; anything else throws a SyntaxError.
\<close>

definition BigInt :: "string \<Rightarrow> error + int" where
  "BigInt s =
     (case trimWhiteSpace s of
        [] \<Rightarrow> Inr 0
      | c # cs \<Rightarrow>
          if c = CHR ''-'' then
            (case parseLiteral 10 cs of Inl e \<Rightarrow> Inl e | Inr n \<Rightarrow> Inr (- n))
          else if c = CHR ''+'' then parseLiteral 10 cs
          else
            (case cs of
               [] \<Rightarrow> parseLiteral 10 [c]
             | r # ds \<Rightarrow>
                 (case (if c = CHR ''0'' then radixOfPrefix r else None) of
                    Some radix \<Rightarrow> parseLiteral radix ds
                  | None \<Rightarrow> parseLiteral 10 (c # cs))))"

fun mapBigInt :: "string list \<Rightarrow> error + int list" where
  "mapBigInt [] = Inr []"
| "mapBigInt (s # ss) =
     (case BigInt s of
        Inl e \<Rightarrow> Inl e
      | Inr i \<Rightarrow> (case mapBigInt ss of Inl e \<Rightarrow> Inl e | Inr is \<Rightarrow> Inr (i # is)))"

text \<open>
  \<^verbatim>\<open>keyToPosition\<close> converts every piece of the key and binds the first two. A key
  with a single piece leaves \<^verbatim>\<open>y\<close> undefined in JavaScript, which is no Position:
  the model reports it as \<^const>\<open>MissingCoordinate\<close>.
\<close>

definition keyToPosition :: "string \<Rightarrow> error + Position" where
  "keyToPosition key =
     (case mapBigInt (split_string CHR '','' key) of
        Inl e \<Rightarrow> Inl e
      | Inr (a # b # _) \<Rightarrow> Inr \<lparr>x = a, y = b\<rparr>
      | Inr _ \<Rightarrow> Inl MissingCoordinate)"

subsection \<open>Distance\<close>

definition abs_bigint :: "int \<Rightarrow> int" where
  "abs_bigint n = (if n < 0 then - n else n)"

definition manhattanDistance :: "Position \<Rightarrow> Position \<Rightarrow> int" where
  "manhattanDistance a b = abs_bigint (x a - x b) + abs_bigint (y a - y b)"

definition origin :: Position where
  "origin = \<lparr>x = 0, y = 0\<rparr>"


subsection \<open>The world state view (game-state.ts)\<close>

definition getPelletAt :: "GameState \<Rightarrow> Position \<Rightarrow> Pellet option" where
  "getPelletAt gs pos = map_of (pellets gs) (positionToKey pos)"

definition getAllPellets :: "GameState \<Rightarrow> Pellet list" where
  "getAllPellets gs = map snd (pellets gs)"

definition getAllShips :: "GameState \<Rightarrow> Ship list" where
  "getAllShips gs = map snd (ships gs)"

text \<open>
  \<^verbatim>\<open>Array.prototype.sort\<close> is stable, and so is \<^const>\<open>sort_key\<close>: pellets at the
  same distance keep the order of the map.
\<close>

definition getPelletsWithinDistance :: "GameState \<Rightarrow> Position \<Rightarrow> int \<Rightarrow> Pellet list" where
  "getPelletsWithinDistance gs pos maxDistance =
     sort_key (\<lambda>p. manhattanDistance pos (Pellet.position p))
       (filter (\<lambda>p. manhattanDistance pos (Pellet.position p) \<le> maxDistance) (map snd (pellets gs)))"

definition removePellet :: "GameState \<Rightarrow> Position \<Rightarrow> GameState" where
  "removePellet gs pos = gs\<lparr>pellets := AList.delete (positionToKey pos) (pellets gs)\<rparr>"

text \<open>
  \<^verbatim>\<open>updatePellets\<close> clears the map and stores every pellet it reads under the key of
  its position; \<open>setPellets\<close> is that loop on the pellets read.
\<close>

definition setPellet :: "Pellet \<Rightarrow> GameState \<Rightarrow> GameState" where
  "setPellet pellet gs =
     gs\<lparr>pellets := AList.update (positionToKey (Pellet.position pellet)) pellet (pellets gs)\<rparr>"

definition setPellets :: "Pellet list \<Rightarrow> GameState \<Rightarrow> GameState" where
  "setPellets ps gs = fold setPellet ps (gs\<lparr>pellets := []\<rparr>)"

text \<open>The state that the constructor of \<^verbatim>\<open>GameStateManager\<close> builds.\<close>

definition emptyGameState :: GameState where
  "emptyGameState = \<lparr>pellets = [], ships = [], myShipPosition = None, myShipFuel = None,
     config = GAME_CONFIG\<rparr>"

definition updateMyShip :: "GameState \<Rightarrow> Position \<Rightarrow> int \<Rightarrow> GameState" where
  "updateMyShip gs pos fu = gs\<lparr>myShipPosition := Some pos, myShipFuel := Some fu\<rparr>"

section \<open>Pathfinder (pathfinding.ts)\<close>

text \<open>
  Division of bigints truncates toward zero: \<^const>\<open>signed_divide\<close>. The neighbours are
  the moves of the table in its order, without the diagonal moves that the test skips.
\<close>

definition moves :: "(int \<times> int) list" where
  "moves = [(1, 0), (-1, 0), (0, 1), (0, -1), (1, 1), (-1, 1), (1, -1), (-1, -1)]"

definition towardOrigin :: "int \<Rightarrow> int" where
  "towardOrigin c = (if c \<noteq> 0 then (- c) sdiv abs_bigint c else 0)"

definition skipMove :: "Position \<Rightarrow> int \<times> int \<Rightarrow> bool" where
  "skipMove pos m =
     (case m of (dx, dy) \<Rightarrow>
        dx \<noteq> 0 \<and> dy \<noteq> 0 \<and> (dx \<noteq> towardOrigin (x pos) \<or> dy \<noteq> towardOrigin (y pos)))"

definition getNeighbors :: "Position \<Rightarrow> Position list" where
  "getNeighbors pos =
     map (\<lambda>(dx, dy). \<lparr>x = x pos + dx, y = y pos + dy\<rparr>) (filter (\<lambda>m. \<not> skipMove pos m) moves)"

definition hasPelletOnPath :: "GameState \<Rightarrow> Position \<Rightarrow> Position \<Rightarrow> int \<Rightarrow> bool" where
  "hasPelletOnPath gs src dst currentFuel =
     list_ex (\<lambda>pellet.
        let distToPellet = manhattanDistance src (Pellet.position pellet);
            distFromPelletToGoal = manhattanDistance (Pellet.position pellet) dst
        in distToPellet \<le> currentFuel \<and>
           (let fuelAfterMove = currentFuel - distToPellet;
                maxRefuel = maxShipFuel GAME_CONFIG - fuelAfterMove;
                actualRefuel = min (Pellet.fuel pellet) maxRefuel;
                fuelAfterReachingPellet = fuelAfterMove + actualRefuel
            in fuelAfterReachingPellet \<ge> distFromPelletToGoal))
       (getAllPellets gs)"

text \<open>
  \<^verbatim>\<open>reconstructPath\<close> walks the parent links from the goal node, putting each
  position in front of the ones collected so far.
\<close>

fun reconstructLoop :: "GameState \<Rightarrow> PathNode \<Rightarrow> Position list \<Rightarrow> Position list \<Rightarrow> nat \<Rightarrow> Path" where
  "reconstructLoop gs (PathNode pos gc hc fc par fu) ns stops cost =
     (let ns' = pos # ns;
          stops' = (if getPelletAt gs pos \<noteq> None \<and> par \<noteq> None then pos # stops else stops);
          cost' = (if par \<noteq> None then cost + 1 else cost)
      in case par of
           None \<Rightarrow> \<lparr>nodes = ns', totalCost = enat cost', fuelStops = stops', success = True\<rparr>
         | Some p \<Rightarrow> reconstructLoop gs p ns' stops' cost')"

definition reconstructPath :: "GameState \<Rightarrow> PathNode \<Rightarrow> Path" where
  "reconstructPath gs node = reconstructLoop gs node [] [] 0"

definition failedPath :: Path where
  "failedPath = \<lparr>nodes = [], totalCost = \<infinity>, fuelStops = [], success = False\<rparr>"

definition maxIterations :: nat where
  "maxIterations = 1000"

text \<open>
  The scan of the open set for the node with the lowest f: the first one found stays
  unless a later one is strictly lower.
\<close>

definition pickLower ::
  "string \<times> PathNode \<Rightarrow> (string \<times> PathNode) option \<Rightarrow> (string \<times> PathNode) option" where
  "pickLower entry current =
     (case current of
        None \<Rightarrow> Some entry
      | Some cur \<Rightarrow> if PathNode.f (snd entry) < PathNode.f (snd cur) then Some entry else current)"

definition lowestF :: "(string \<times> PathNode) list \<Rightarrow> (string \<times> PathNode) option" where
  "lowestF openSet = fold pickLower openSet None"

text \<open>
  The body of the loop over the neighbours: each \<^verbatim>\<open>continue\<close> leaves the open set
  as it is.
\<close>

definition exploreNeighbor ::
  "GameState \<Rightarrow> Position \<Rightarrow> bool \<Rightarrow> string set \<Rightarrow> PathNode \<Rightarrow> Position \<Rightarrow>
   (string \<times> PathNode) list \<Rightarrow> (string \<times> PathNode) list" where
  "exploreNeighbor gs goal considerPellets closedSet current neighborPos openSet =
     (let neighborKey = positionToKey neighborPos in
      if neighborKey \<in> closedSet then openSet
      else
        let fuelBefore = PathNode.fuel current - 1 in
        if fuelBefore < 0 then openSet
        else
          let fuelAtNeighbor =
                (if considerPellets then
                   (case getPelletAt gs neighborPos of
                      Some pellet \<Rightarrow> min (maxShipFuel GAME_CONFIG) (fuelBefore + Pellet.fuel pellet)
                    | None \<Rightarrow> fuelBefore)
                 else fuelBefore);
              distanceToGoal = manhattanDistance neighborPos goal;
              hasPathThroughPellets = hasPelletOnPath gs neighborPos goal fuelAtNeighbor
          in
          if fuelAtNeighbor < distanceToGoal \<and> \<not> hasPathThroughPellets then openSet
          else
            let tentativeG = g current + 1;
                neighborNode = PathNode neighborPos tentativeG distanceToGoal
                                 (tentativeG + distanceToGoal) (Some current) fuelAtNeighbor
            in
            (case map_of openSet neighborKey of
               Some existingNode \<Rightarrow>
                 if tentativeG \<ge> g existingNode then openSet
                 else AList.update neighborKey neighborNode openSet
             | None \<Rightarrow> AList.update neighborKey neighborNode openSet))"

text \<open>
  The main loop, on the open set, the closed set and the count of iterations. It gives
  the goal node when one is taken from the open set, and the count of iterations at
  its exit.
\<close>

function searchLoop ::
  "GameState \<Rightarrow> Position \<Rightarrow> bool \<Rightarrow> (string \<times> PathNode) list \<Rightarrow> string set \<Rightarrow> nat \<Rightarrow>
   PathNode option \<times> nat" where
  "searchLoop gs goal considerPellets openSet closedSet iterations =
     (if length openSet > 0 \<and> iterations < maxIterations then
        (case lowestF openSet of
           None \<Rightarrow> (None, iterations + 1)
         | Some (currentKey, current) \<Rightarrow>
             if x (PathNode.position current) = x goal \<and> y (PathNode.position current) = y goal
             then (Some current, iterations + 1)
             else
               searchLoop gs goal considerPellets
                 (fold (exploreNeighbor gs goal considerPellets (insert currentKey closedSet) current)
                    (getNeighbors (PathNode.position current))
                    (AList.delete currentKey openSet))
                 (insert currentKey closedSet)
                 (iterations + 1))
      else (None, iterations))"
  by pat_completeness auto
termination
  by (relation "measure (\<lambda>(gs, goal, considerPellets, openSet, closedSet, iterations).
                  maxIterations - iterations)") auto

declare searchLoop.simps [simp del]

definition startNode :: "Position \<Rightarrow> Position \<Rightarrow> int \<Rightarrow> PathNode" where
  "startNode start goal initFuel =
     PathNode start 0 (manhattanDistance start goal) (manhattanDistance start goal) None initFuel"

definition findPath :: "GameState \<Rightarrow> Position \<Rightarrow> Position \<Rightarrow> int \<Rightarrow> bool \<Rightarrow> Path" where
  "findPath gs start goal initFuel considerPellets =
     (case fst (searchLoop gs goal considerPellets
                  [(positionToKey start, startNode start goal initFuel)] {} 0) of
        Some current \<Rightarrow> reconstructPath gs current
      | None \<Rightarrow> failedPath)"






text \<open>
  One turn of the loop over the reachable pellets, on the best path and its cost. The
  first leg is a successful path when its cost is read, and such a path has a finite
  cost; with an infinite cost the fuel at the pellet would be \<^verbatim>\<open>-Infinity\<close>, the
  second leg could cost nothing less than infinity, and the best path would stay.
\<close>

definition tryPellet ::
  "GameState \<Rightarrow> Position \<Rightarrow> Position \<Rightarrow> int \<Rightarrow> Pellet \<Rightarrow> Path \<times> enat \<Rightarrow> Path \<times> enat" where
  "tryPellet gs start goal initFuel pellet best =
     (let pathToPellet = findPath gs start (Pellet.position pellet) initFuel False in
      if \<not> success pathToPellet then best
      else
        (case totalCost pathToPellet of
           \<infinity> \<Rightarrow> best
         | enat cost \<Rightarrow>
             let fuelAtPellet =
                   min (maxShipFuel GAME_CONFIG) (initFuel - int cost + Pellet.fuel pellet);
                 pathFromPellet = findPath gs (Pellet.position pellet) goal fuelAtPellet True
             in
             if \<not> success pathFromPellet then best
             else
               let total = totalCost pathToPellet + totalCost pathFromPellet in
               if total < snd best then
                 (\<lparr>nodes = butlast (nodes pathToPellet) @ nodes pathFromPellet,
                   totalCost = total,
                   fuelStops = Pellet.position pellet # fuelStops pathFromPellet,
                   success = True\<rparr>, total)
               else best))"

definition findPathWithRefueling :: "GameState \<Rightarrow> Position \<Rightarrow> Position \<Rightarrow> int \<Rightarrow> Path" where
  "findPathWithRefueling gs start goal initFuel =
     (let directPath = findPath gs start goal initFuel True in
      if success directPath then directPath
      else
        let reachablePellets =
              filter (\<lambda>p. manhattanDistance start (Pellet.position p) \<le> initFuel) (getAllPellets gs)
        in
        if length reachablePellets = 0 then directPath
        else fst (fold (tryPellet gs start goal initFuel) reachablePellets (directPath, \<infinity>)))"

text \<open>\<^verbatim>\<open>simulatePath\<close>: the loop starts at index 1, so the first position is not visited.\<close>

fun simulateLoop :: "GameState \<Rightarrow> Position list \<Rightarrow> int \<Rightarrow> bool" where
  "simulateLoop gs [] fu = True"
| "simulateLoop gs (pos # rest) fu =
     (if fu - 1 < 0 then False
      else simulateLoop gs rest
             (case getPelletAt gs pos of
                Some pellet \<Rightarrow> min (maxShipFuel GAME_CONFIG) (fu - 1 + Pellet.fuel pellet)
              | None \<Rightarrow> fu - 1))"

definition simulatePath :: "GameState \<Rightarrow> Position list \<Rightarrow> int \<Rightarrow> bool" where
  "simulatePath gs path initFuel = simulateLoop gs (drop 1 path) initFuel"

definition calculateNextMove :: "Position \<Rightarrow> Position \<Rightarrow> int \<times> int" where
  "calculateNextMove src dst =
     ((if x src \<noteq> x dst then (if x dst > x src then 1 else -1) else 0),
      (if y src \<noteq> y dst then (if y dst > y src then 1 else -1) else 0))"

section \<open>Numbers\<close>

text \<open>
  A \<^verbatim>\<open>number\<close> is an IEEE 754 double: \<^verbatim>\<open>NaN\<close>, an infinity, or a finite double given
  by its value, a rational. The two zeros are one value: the functions modelled here
  add, subtract, multiply, negate and compare, and none of these gives another result
  for \<^verbatim>\<open>-0\<close> than for \<^verbatim>\<open>+0\<close>, up to the sign of a zero.

  An operation gives the exact result rounded to the nearest double, ties to the even
  significand (\<open>roundToDouble\<close>): with \<open>2^e \<le> |v| < 2^(e+1)\<close> and \<open>e\<close> at least -1022
  (below, doubles are subnormal and keep the spacing of that exponent), the doubles
  around \<open>v\<close> are the multiples of \<open>2^(e-52)\<close>; a result of \<open>2^1024\<close> or more is an
  infinity.
\<close>

datatype double = NotANumber | PlusInfinity | MinusInfinity | Finite rat




















section \<open>FuelManager (fuel-manager.ts)\<close>

record FuelManager =
  gameState :: GameState
  conservativeMode :: bool

definition getReachablePellets :: "FuelManager \<Rightarrow> Position \<Rightarrow> int \<Rightarrow> Pellet list" where
  "getReachablePellets fm pos fu = getPelletsWithinDistance (gameState fm) pos fu"

definition needsRefueling :: "FuelManager \<Rightarrow> int \<Rightarrow> Position \<Rightarrow> bool" where
  "needsRefueling fm currentFuel currentPosition =
     (let distanceToOrigin = manhattanDistance currentPosition \<lparr>x = 0, y = 0\<rparr> in
      if currentFuel = 0 then True
      else if currentFuel \<ge> distanceToOrigin then False
      else
        let reachablePellets = getReachablePellets fm currentPosition currentFuel in
        if length reachablePellets = 0 then False
        else if conservativeMode fm \<and> currentFuel < 3 then True
        else currentFuel < 2)"


record ScoredPellet =
  pellet :: Pellet
  score :: double



definition hasPelletAtPosition :: "FuelManager \<Rightarrow> Position \<Rightarrow> bool" where
  "hasPelletAtPosition fm pos = (getPelletAt (gameState fm) pos \<noteq> None)"

definition updateStrategy :: "FuelManager \<Rightarrow> int \<Rightarrow> FuelManager" where
  "updateStrategy fm pelletsCount = fm\<lparr>conservativeMode := pelletsCount < 10\<rparr>"

section \<open>SpawnOptimizer (spawn-optimizer.ts)\<close>

text \<open>
  The score of a spawn candidate is a double: \<^verbatim>\<open>-Infinity\<close> without a path, a
  weighted sum of quotients with one, \<^verbatim>\<open>NaN\<close> when the quotient is 0/0. The
  model computes the finite scores in \<^typ>\<open>rat\<close>, without the rounding of doubles.
\<close>

datatype number = NaN | NegInfinity | Num rat

record SpawnCandidate =
  position :: Position
  score :: number
  guaranteedPath :: bool
  pathToOrigin :: "Path option"
  nearbyPellets :: nat
  totalMoves :: enat

definition calculateDistance :: "Position \<Rightarrow> Position \<Rightarrow> int" where
  "calculateDistance a b = abs_bigint (x a - x b) + abs_bigint (y a - y b)"

definition countNearbyShips :: "GameState \<Rightarrow> Position \<Rightarrow> int \<Rightarrow> nat" where
  "countNearbyShips gs pos radius =
     length (filter (\<lambda>ship. calculateDistance pos (Ship.position ship) \<le> radius) (getAllShips gs))"

text \<open>
  The quotient \<^verbatim>\<open>distanceToOrigin / path.totalCost\<close> under \<^verbatim>\<open>Math.min(1.0, _)\<close>:
  a finite distance over \<^verbatim>\<open>Infinity\<close> is 0, a positive distance over 0 is
  \<^verbatim>\<open>Infinity\<close>, which the minimum cuts to 1, and 0 / 0 is \<^verbatim>\<open>NaN\<close> (none here).
\<close>

definition pathEfficiencyOf :: "int \<Rightarrow> enat \<Rightarrow> rat option" where
  "pathEfficiencyOf distanceToOrigin cost =
     (case cost of
        \<infinity> \<Rightarrow> Some 0
      | enat c \<Rightarrow>
          if c = 0 then (if distanceToOrigin = 0 then None else Some 1)
          else Some (min 1 (of_int distanceToOrigin / of_nat c)))"

definition calculateSpawnScore :: "GameState \<Rightarrow> Position \<Rightarrow> Path \<Rightarrow> nat \<Rightarrow> nat \<Rightarrow> number" where
  "calculateSpawnScore gs pos path nearby nearbyShips =
     (if \<not> success path then NegInfinity
      else
        let distanceToOrigin = calculateDistance pos \<lparr>x = 0, y = 0\<rparr>;
            pathSuccessScore = 1;
            pathSafety = min 1 (of_nat (length (fuelStops path)) / 3);
            extendedNearbyPellets = length (getPelletsWithinDistance gs pos 20);
            pelletScore = min 1 (of_nat extendedNearbyPellets / 10);
            competitionScore = max 0 (1 - of_nat nearbyShips / 3);
            distancePenalty = of_int distanceToOrigin / 200
        in
        (case pathEfficiencyOf distanceToOrigin (totalCost path) of
           None \<Rightarrow> NaN
         | Some pathEfficiency \<Rightarrow>
             Num (1000 * pathSuccessScore + 500 * pathEfficiency + 300 * pathSafety
                  + 200 * pelletScore + (- 50) * distancePenalty
                  + (- 100) * competitionScore)))"

definition evaluateSpawnPosition :: "GameState \<Rightarrow> Position \<Rightarrow> SpawnCandidate" where
  "evaluateSpawnPosition gs pos =
     (let path = findPathWithRefueling gs pos \<lparr>x = 0, y = 0\<rparr> (initialFuel GAME_CONFIG);
          nearby = length (getPelletsWithinDistance gs pos 10);
          nearbyShips = countNearbyShips gs pos 15
      in \<lparr>position = pos,
          score = calculateSpawnScore gs pos path nearby nearbyShips,
          guaranteedPath = success path,
          pathToOrigin = Some path,
          nearbyPellets = nearby,
          totalMoves = totalCost path\<rparr>)"

text \<open>The systematic grid and the removal of duplicates are integer code.\<close>

definition generateSystematicGrid :: "int \<Rightarrow> int \<Rightarrow> Position list" where
  "generateSystematicGrid minDist maxDist =
     (let coords = map (\<lambda>k. - maxDist + 5 * int k) [0 ..< nat ((2 * maxDist) div 5 + 1)] in
      concat (map (\<lambda>a. concat (map (\<lambda>b.
        let pos = \<lparr>x = a, y = b\<rparr>; dist = manhattanDistance pos \<lparr>x = 0, y = 0\<rparr>
        in if dist \<ge> minDist \<and> dist \<le> maxDist then [pos] else []) coords)) coords))"

fun deduplicateLoop :: "Position list \<Rightarrow> string set \<Rightarrow> Position list" where
  "deduplicateLoop [] seen = []"
| "deduplicateLoop (pos # rest) seen =
     (let key = bigintToString (x pos) @ '','' @ bigintToString (y pos) in
      if key \<notin> seen then pos # deduplicateLoop rest (insert key seen)
      else deduplicateLoop rest seen)"

definition deduplicatePositions :: "Position list \<Rightarrow> Position list" where
  "deduplicatePositions positions = deduplicateLoop positions {}"

text \<open>
  \<^verbatim>\<open>generateSpawnCandidates\<close> reads the snapshot only, so its two calls (in the
  primary search and in the fallback) give the same list. Two of its three strategies
  place candidates with \<^verbatim>\<open>Math.cos\<close> and \<^verbatim>\<open>Math.sin\<close>; the lists they give are
  the parameters \<open>pelletBased\<close> and \<open>radial\<close> here.
\<close>

definition generateSpawnCandidates :: "Position list \<Rightarrow> Position list \<Rightarrow> Position list" where
  "generateSpawnCandidates pelletBased radial =
     (let minDist = minAsteriaDistance GAME_CONFIG;
          maxDist = min 200 (minDist * 3)
      in deduplicatePositions (pelletBased @ generateSystematicGrid minDist maxDist @ radial))"

text \<open>
  The fallback: a candidate is kept only when it has strictly more pellets nearby than
  the best so far, which starts at 0.
\<close>

definition fallbackStep ::
  "GameState \<Rightarrow> Position \<Rightarrow> SpawnCandidate option \<times> nat \<Rightarrow> SpawnCandidate option \<times> nat" where
  "fallbackStep gs pos best =
     (let nearby = length (getPelletsWithinDistance gs pos 15) in
      if nearby > snd best then
        (Some \<lparr>position = pos, score = Num (of_nat nearby), guaranteedPath = False,
               pathToOrigin = None, nearbyPellets = nearby,
               totalMoves = enat (nat (calculateDistance pos \<lparr>x = 0, y = 0\<rparr>))\<rparr>, nearby)
      else best)"

definition findFallbackSpawnPosition :: "GameState \<Rightarrow> Position list \<Rightarrow> SpawnCandidate option" where
  "findFallbackSpawnPosition gs candidates = fst (fold (fallbackStep gs) candidates (None, 0))"

text \<open>
  The loop of the primary search, on the candidates left, the feasible candidates
  collected and the two counters.
\<close>

fun evaluateLoop ::
  "GameState \<Rightarrow> Position list \<Rightarrow> SpawnCandidate list \<Rightarrow> nat \<Rightarrow> nat \<Rightarrow> SpawnCandidate list" where
  "evaluateLoop gs [] evaluated pathsFound totalEvaluated = evaluated"
| "evaluateLoop gs (pos # rest) evaluated pathsFound totalEvaluated =
     (let candidate = evaluateSpawnPosition gs pos;
          evaluated' = (if guaranteedPath candidate then evaluated @ [candidate] else evaluated);
          pathsFound' = (if guaranteedPath candidate then pathsFound + 1 else pathsFound)
      in if pathsFound' \<ge> 10 \<and> totalEvaluated + 1 \<ge> 100 then evaluated'
         else evaluateLoop gs rest evaluated' pathsFound' (totalEvaluated + 1))"

text \<open>
  The comparator \<^verbatim>\<open>b.score - a.score\<close> is positive when \<open>b\<close> has the higher score;
  a difference that is \<^verbatim>\<open>NaN\<close> counts as 0.
\<close>

fun scoreBelow :: "number \<Rightarrow> number \<Rightarrow> bool" where
  "scoreBelow (Num a) (Num b) = (a < b)"
| "scoreBelow NegInfinity (Num b) = True"
| "scoreBelow _ _ = False"

fun insertByScore :: "SpawnCandidate \<Rightarrow> SpawnCandidate list \<Rightarrow> SpawnCandidate list" where
  "insertByScore c [] = [c]"
| "insertByScore c (d # ds) =
     (if scoreBelow (SpawnCandidate.score c) (SpawnCandidate.score d) then d # insertByScore c ds
      else c # d # ds)"

definition sortByScore :: "SpawnCandidate list \<Rightarrow> SpawnCandidate list" where
  "sortByScore cs = foldr insertByScore cs []"

definition findOptimalSpawnPosition :: "GameState \<Rightarrow> Position list \<Rightarrow> SpawnCandidate option" where
  "findOptimalSpawnPosition gs candidates =
     (let evaluatedCandidates = evaluateLoop gs candidates [] 0 0 in
      if length evaluatedCandidates = 0 then findFallbackSpawnPosition gs candidates
      else (case sortByScore evaluatedCandidates of [] \<Rightarrow> None | best # _ \<Rightarrow> Some best))"

section \<open>The refuel score in the words of the specification\<close>


section \<open>Auxiliary definitions of the proofs\<close>

text \<open>The candidate that the fallback builds at a position.\<close>

definition fallbackCandidate :: "GameState \<Rightarrow> Position \<Rightarrow> SpawnCandidate" where
  "fallbackCandidate gs pos =
     \<lparr>position = pos, score = Num (of_nat (length (getPelletsWithinDistance gs pos 15))),
      guaranteedPath = False, pathToOrigin = None,
      nearbyPellets = length (getPelletsWithinDistance gs pos 15),
      totalMoves = enat (nat (calculateDistance pos \<lparr>x = 0, y = 0\<rparr>))\<rparr>"

text \<open>The number of parent links behind a node, and the positions from the start node to it.\<close>

fun depth :: "PathNode \<Rightarrow> nat" where
  "depth (PathNode pos gc hc fc None fu) = 0"
| "depth (PathNode pos gc hc fc (Some p) fu) = depth p + 1"

fun chain :: "PathNode \<Rightarrow> Position list" where
  "chain (PathNode pos gc hc fc None fu) = [pos]"
| "chain (PathNode pos gc hc fc (Some p) fu) = chain p @ [pos]"

text \<open>A path, when successful, has a node and costs one less than the number of its nodes.\<close>

definition costOk :: "Path \<Rightarrow> bool" where
  "costOk p = (success p \<longrightarrow> nodes p \<noteq> [] \<and> totalCost p = enat (length (nodes p) - 1))"










text \<open>The value of a finite number.\<close>

definition finiteValue :: "double \<Rightarrow> rat" where
  "finiteValue d = (case d of Finite a \<Rightarrow> a | _ \<Rightarrow> 0)"

section \<open>Keys: the round trip through \<^verbatim>\<open>positionToKey\<close>\<close>

lemma digitValue_digitChar: "d < 10 \<Longrightarrow> digitValue (digitChar d) = Some d"
  by (simp add: digitValue_def digitChar_def Let_def)

lemma parseDigits_snoc:
  "parseDigits r acc (s @ [c]) =
     (case parseDigits r acc s of
        None \<Rightarrow> None
      | Some m \<Rightarrow>
          (case digitValue c of
             None \<Rightarrow> None
           | Some d \<Rightarrow> if d < r then Some (r * m + d) else None))"
  by (induction s arbitrary: acc) (auto split: option.splits)

lemma parseDigits_natToString: "parseDigits 10 0 (natToString n) = Some n"
proof (induction n rule: natToString.induct)
  case (1 n)
  show ?case
  proof (cases "n < 10")
    case True
    then show ?thesis by (subst natToString.simps) (simp add: digitValue_digitChar)
  next
    case False
    with 1 have "parseDigits 10 0 (natToString (n div 10)) = Some (n div 10)" by simp
    with False show ?thesis
      by (subst natToString.simps) (simp add: parseDigits_snoc digitValue_digitChar)
  qed
qed

lemma isDigit_digitChar: "d < 10 \<Longrightarrow> isDigit (digitChar d)"
  by (simp add: isDigit_def digitChar_def)

lemma not_isDigit_punct: "\<not> isDigit CHR '',''" "\<not> isDigit CHR ''-''" "\<not> isDigit CHR ''+''"
  by (simp_all add: isDigit_def)

lemma isDigit_not_space: "isDigit c \<Longrightarrow> \<not> isWhiteSpace c"
  by (auto simp add: isDigit_def isWhiteSpace_def)

lemma isDigit_no_prefix: "isDigit c \<Longrightarrow> radixOfPrefix c = None"
  by (auto simp add: isDigit_def radixOfPrefix_def)

lemma natToString_digits: "list_all isDigit (natToString n) \<and> natToString n \<noteq> []"
proof (induction n rule: natToString.induct)
  case (1 n)
  show ?case
  proof (cases "n < 10")
    case True
    then show ?thesis by (subst (1 2) natToString.simps) (simp add: isDigit_digitChar)
  next
    case False
    with 1 show ?thesis
      by (subst (1 2) natToString.simps) (simp add: isDigit_digitChar)
  qed
qed

lemma trimWhiteSpace_id:
  assumes "s \<noteq> []" and "\<not> isWhiteSpace (hd s)" and "\<not> isWhiteSpace (last s)"
  shows "trimWhiteSpace s = s"
proof -
  have "dropWhile isWhiteSpace s = s"
    using assms(1,2) by (cases s) simp_all
  moreover have "dropWhile isWhiteSpace (rev s) = rev s"
  proof -
    define r where "r = rev s"
    have "\<not> isWhiteSpace (hd r)"
      using assms(1,3) by (simp add: r_def hd_rev)
    then have "dropWhile isWhiteSpace r = r"
      by (cases r) simp_all
    then show ?thesis by (simp add: r_def)
  qed
  ultimately show ?thesis by (simp add: trimWhiteSpace_def)
qed

lemma parseLiteral_natToString: "parseLiteral 10 (natToString n) = Inr (int n)"
  using natToString_digits [of n] by (simp add: parseLiteral_def parseDigits_natToString)

lemma BigInt_bigintToString: "BigInt (bigintToString i) = Inr i"
proof -
  let ?n = "if i < 0 then nat (- i) else nat i"
  obtain c cs where s: "natToString ?n = c # cs"
    using natToString_digits [of ?n] by (cases "natToString ?n") auto
  have digits: "isDigit c" "list_all isDigit cs"
    using natToString_digits [of ?n] s by simp_all
  have "last (c # cs) \<in> set (c # cs)"
    by (rule last_in_set) simp
  then have lastd: "isDigit (last (c # cs))"
    using digits by (auto simp add: list_all_iff)
  then have nl: "\<not> isWhiteSpace (last (c # cs))"
    by (rule isDigit_not_space)
  show ?thesis
  proof (cases "i < 0")
    case True
    have "\<not> isWhiteSpace (last (CHR ''-'' # c # cs))" using nl by simp
    moreover have "\<not> isWhiteSpace (hd (CHR ''-'' # c # cs))" by (simp add: isWhiteSpace_def)
    ultimately have "trimWhiteSpace (CHR ''-'' # c # cs) = CHR ''-'' # c # cs"
      by (intro trimWhiteSpace_id) simp_all
    then show ?thesis
      using True s parseLiteral_natToString [of "nat (- i)"]
      by (simp add: BigInt_def bigintToString_def)
  next
    case False
    have "\<not> isWhiteSpace (hd (c # cs))" using digits(1) by (simp add: isDigit_not_space)
    with nl have trim: "trimWhiteSpace (c # cs) = c # cs"
      by (intro trimWhiteSpace_id) simp_all
    have c: "c \<noteq> CHR ''-''" "c \<noteq> CHR ''+''"
      using digits(1) not_isDigit_punct by auto
    have "(case cs of
             [] \<Rightarrow> parseLiteral 10 [c]
           | r # ds \<Rightarrow>
               (case (if c = CHR ''0'' then radixOfPrefix r else None) of
                  Some radix \<Rightarrow> parseLiteral radix ds
                | None \<Rightarrow> parseLiteral 10 (c # cs))) = parseLiteral 10 (c # cs)"
      using digits(2) by (cases cs) (simp_all add: isDigit_no_prefix)
    then show ?thesis
      using False s trim c parseLiteral_natToString [of "nat i"]
      by (simp add: BigInt_def bigintToString_def)
  qed
qed

lemma split_string_no_sep: "c \<notin> set s \<Longrightarrow> split_string c s = [s]"
  by (induction s) auto

lemma split_string_append:
  "c \<notin> set s \<Longrightarrow> split_string c (s @ c # t) = s # split_string c t"
  by (induction s) auto

lemma bigintToString_no_comma: "CHR '','' \<notin> set (bigintToString i)"
proof -
  have "CHR '','' \<notin> set (natToString n)" for n
    using natToString_digits [of n] not_isDigit_punct(1) by (auto simp: list_all_iff)
  then show ?thesis by (simp add: bigintToString_def)
qed

lemma keyToPosition_key: "keyToPosition (positionToKey p) = Inr p"
  by (simp add: keyToPosition_def positionToKey_def split_string_append split_string_no_sep
      bigintToString_no_comma BigInt_bigintToString)

lemma positionToKey_eq_iff [simp]: "positionToKey p = positionToKey q \<longleftrightarrow> p = q"
proof
  assume "positionToKey p = positionToKey q"
  then have "keyToPosition (positionToKey p) = keyToPosition (positionToKey q)" by simp
  then show "p = q" by (simp add: keyToPosition_key)
qed simp

text \<open>
  Claim C10. For every position \<open>p\<close>, \<^verbatim>\<open>keyToPosition(positionToKey(p))\<close> is \<open>p\<close>, and
  \<^verbatim>\<open>positionToKey\<close> is injective: two positions have the same key only when they are
  the same position, so distinct positions never share a key of the pellet or ship map.
\<close>

theorem positionToKey_roundtrip:
  "keyToPosition (positionToKey p) = Inr p \<and> inj positionToKey"
proof
  show "keyToPosition (positionToKey p) = Inr p"
    by (rule keyToPosition_key)
  show "inj positionToKey"
    by (rule injI) simp
qed

section \<open>Neighbours\<close>

lemma towardOrigin_sgn: "towardOrigin c = - sgn c"
  by (simp add: towardOrigin_def abs_bigint_def signed_divide_int_def sgn_if)

lemma Position_eq_iff: "(p = q) = (x p = x q \<and> y p = y q)" for p q :: Position
  by (cases p, cases q) simp

lemma getNeighbors_list:
  "getNeighbors p =
     [\<lparr>x = x p + 1, y = y p\<rparr>, \<lparr>x = x p - 1, y = y p\<rparr>,
      \<lparr>x = x p, y = y p + 1\<rparr>, \<lparr>x = x p, y = y p - 1\<rparr>]
     @ (if x p \<noteq> 0 \<and> y p \<noteq> 0 then [\<lparr>x = x p - sgn (x p), y = y p - sgn (y p)\<rparr>] else [])"
  by (simp add: getNeighbors_def moves_def skipMove_def towardOrigin_sgn sgn_if)

text \<open>
  Claim C8. The neighbours of a position \<open>p\<close> are the four unit moves along the axes,
  whatever \<open>p\<close> is, followed by at most one diagonal move: the one whose \<open>dx\<close> is the
  unit sign from \<open>p.x\<close> toward 0 and whose \<open>dy\<close> is the unit sign from \<open>p.y\<close> toward 0,
  generated only when neither coordinate is 0. The goal is no argument of
  \<^verbatim>\<open>getNeighbors\<close>.
\<close>

theorem getNeighbors_moves:
  "getNeighbors p =
     [\<lparr>x = x p + 1, y = y p\<rparr>, \<lparr>x = x p - 1, y = y p\<rparr>,
      \<lparr>x = x p, y = y p + 1\<rparr>, \<lparr>x = x p, y = y p - 1\<rparr>]
     @ (if x p \<noteq> 0 \<and> y p \<noteq> 0 then [\<lparr>x = x p - sgn (x p), y = y p - sgn (y p)\<rparr>] else [])"
proof -
  have toward: "towardOrigin c = - sgn c" for c
    by (simp add: towardOrigin_def abs_bigint_def signed_divide_int_def sgn_if)
  have axes: "\<not> skipMove p (1, 0)" "\<not> skipMove p (-1, 0)" "\<not> skipMove p (0, 1)" "\<not> skipMove p (0, -1)"
    by (simp_all add: skipMove_def)
  have diag: "skipMove p (dx, dy) \<longleftrightarrow> \<not> (dx = - sgn (x p) \<and> dy = - sgn (y p))"
    if "dx \<noteq> 0" "dy \<noteq> 0" for dx dy
    using that by (simp add: skipMove_def toward)
  show ?thesis
    by (simp add: getNeighbors_def moves_def axes diag sgn_if)
qed

section \<open>The search at its boundaries\<close>

lemma lowestF_single: "lowestF [(k, n)] = Some (k, n)"
  by (simp add: lowestF_def pickLower_def)

text \<open>
  Claim C4. For every start position and every fuel (0 or more, and less than 0 as
  well), \<^verbatim>\<open>findPath(start, start, fuel, considerPellets)\<close> is the successful path
  whose nodes are \<open>[start]\<close>, of cost 0 and without fuel stops.
\<close>

theorem findPath_same:
  "findPath gs start start fu cp = \<lparr>nodes = [start], totalCost = 0, fuelStops = [], success = True\<rparr>"
  by (simp add: findPath_def searchLoop.simps [of _ _ _ "[_]"] lowestF_single startNode_def
      maxIterations_def reconstructPath_def zero_enat_def)

lemma exploreNeighbor_no_fuel:
  "PathNode.fuel current - 1 < 0 \<Longrightarrow> exploreNeighbor gs goal cp cl current nb os = os"
  by (simp add: exploreNeighbor_def Let_def)

lemma fold_exploreNeighbor_no_fuel:
  "PathNode.fuel current - 1 < 0 \<Longrightarrow> fold (exploreNeighbor gs goal cp cl current) nbs os = os"
  by (induction nbs) (simp_all add: exploreNeighbor_no_fuel)

lemma searchLoop_empty: "searchLoop gs goal cp [] cl it = (None, it)"
  by (simp add: searchLoop.simps)

text \<open>
  Claim C5. With fuel 0 and a goal other than the start, \<^verbatim>\<open>findPath\<close> fails: every
  neighbour of the start is skipped at the test of the fuel left after the step, before
  a pellet is looked up, so a pellet at the start or on a neighbour changes nothing.
\<close>

theorem findPath_zero_fuel:
  "start \<noteq> goal \<Longrightarrow>
   findPath gs start goal 0 cp = failedPath \<and> success (findPath gs start goal 0 cp) = False"
  by (auto simp add: findPath_def searchLoop.simps [of _ _ _ "[_]"] lowestF_single startNode_def
      maxIterations_def fold_exploreNeighbor_no_fuel searchLoop_empty Position_eq_iff failedPath_def)

theorem findPath_zero_fuel_witness:
  "\<lparr>x = 1, y = 0\<rparr> \<noteq> origin \<and>
   success (findPath (setPellets [\<lparr>Pellet.position = origin, fuel = 5, utxo = 0\<rparr>] emptyGameState)
              \<lparr>x = 1, y = 0\<rparr> origin 0 True) = False"
  using findPath_zero_fuel [of "\<lparr>x = 1, y = 0\<rparr>" origin
      "setPellets [\<lparr>Pellet.position = origin, fuel = 5, utxo = 0\<rparr>] emptyGameState" True]
  by (simp add: origin_def failedPath_def)

section \<open>FuelManager\<close>

lemma set_getReachablePellets:
  "set (getReachablePellets fm pos fu) =
     {p \<in> set (getAllPellets (gameState fm)). manhattanDistance pos (Pellet.position p) \<le> fu}"
  by (auto simp add: getReachablePellets_def getPelletsWithinDistance_def getAllPellets_def)

lemma getReachablePellets_empty_iff:
  "getReachablePellets fm pos fu = [] \<longleftrightarrow>
     (\<forall>p \<in> set (getAllPellets (gameState fm)). fu < manhattanDistance pos (Pellet.position p))"
proof -
  have "getReachablePellets fm pos fu = [] \<longleftrightarrow> set (getReachablePellets fm pos fu) = {}"
    by simp
  also have "\<dots> \<longleftrightarrow>
      (\<forall>p \<in> set (getAllPellets (gameState fm)). fu < manhattanDistance pos (Pellet.position p))"
    by (auto simp add: set_getReachablePellets)
  finally show ?thesis .
qed

text \<open>
  Claim C1, as the specification states it, fails: with fuel 0 and no pellet in the
  world the answer is true, not false.
\<close>

theorem needsRefueling_counterexample:
  "getReachablePellets \<lparr>gameState = emptyGameState, conservativeMode = False\<rparr> \<lparr>x = 1, y = 0\<rparr> 0 = []
   \<and> needsRefueling \<lparr>gameState = emptyGameState, conservativeMode = False\<rparr> 0 \<lparr>x = 1, y = 0\<rparr> = True"
  by (simp add: needsRefueling_def getReachablePellets_def getPelletsWithinDistance_def
      emptyGameState_def)

text \<open>
  Claim C1, amended. Called with fuel 0, \<^verbatim>\<open>needsRefueling\<close> is true at every position
  and for every state of the pellets: with a pellet at the position, and with no pellet
  reachable as well. Called with a fuel other than 0, it is false when no pellet is
  within the distance that the fuel covers.
\<close>

theorem needsRefueling_zero_or_unreachable:
  "needsRefueling fm 0 pos = True \<and>
   (fu \<noteq> 0 \<and> getReachablePellets fm pos fu = [] \<longrightarrow> needsRefueling fm fu pos = False)"
  by (simp add: needsRefueling_def Let_def)

theorem needsRefueling_zero_or_unreachable_witness:
  "(1::int) \<noteq> 0
   \<and> getReachablePellets \<lparr>gameState = emptyGameState, conservativeMode = False\<rparr> \<lparr>x = 3, y = 0\<rparr> 1 = []
   \<and> needsRefueling \<lparr>gameState = emptyGameState, conservativeMode = False\<rparr> 1 \<lparr>x = 3, y = 0\<rparr> = False"
  using needsRefueling_zero_or_unreachable
    [of "\<lparr>gameState = emptyGameState, conservativeMode = False\<rparr>" "\<lparr>x = 3, y = 0\<rparr>" 1]
  by (simp add: getReachablePellets_def getPelletsWithinDistance_def emptyGameState_def)


lemmas state_simps = setPellets_def setPellet_def emptyGameState_def getAllPellets_def
  getPelletAt_def manhattanDistance_def abs_bigint_def origin_def GAME_CONFIG_def

section \<open>Numbers and the score of the refuel target\<close>

































lemma finiteValue_Finite [simp]: "finiteValue (Finite a) = a"
  by (simp add: finiteValue_def)











section \<open>The search loop\<close>

lemma length_chain: "length (chain n) = depth n + 1"
  by (induction n rule: depth.induct) simp_all

lemma reconstructLoop_shape:
  "nodes (reconstructLoop gs n ns st c) = chain n @ ns
   \<and> totalCost (reconstructLoop gs n ns st c) = enat (c + depth n)
   \<and> success (reconstructLoop gs n ns st c)"
  by (induction gs n ns st c rule: reconstructLoop.induct) (auto split: option.splits)

lemma reconstructPath_shape:
  "nodes (reconstructPath gs n) = chain n \<and> totalCost (reconstructPath gs n) = enat (depth n)
   \<and> success (reconstructPath gs n)"
  using reconstructLoop_shape [of gs n "[]" "[]" 0] by (simp add: reconstructPath_def)



lemma fold_pickLower_Some: "acc \<noteq> None \<Longrightarrow> fold pickLower os acc \<noteq> None"
  by (induction os arbitrary: acc) (auto simp add: pickLower_def)

lemma lowestF_nonempty: "os \<noteq> [] \<Longrightarrow> lowestF os \<noteq> None"
  by (cases os) (simp_all add: lowestF_def fold_pickLower_Some pickLower_def)

lemma searchLoop_stop:
  "os = [] \<or> maxIterations \<le> it \<Longrightarrow> searchLoop gs goal cp os cl it = (None, it)"
  by (subst searchLoop.simps) auto

lemma searchLoop_found:
  "it < maxIterations \<Longrightarrow> lowestF os = Some (k, n) \<Longrightarrow> PathNode.position n = goal \<Longrightarrow>
   searchLoop gs goal cp os cl it = (Some n, it + 1)"
  by (subst searchLoop.simps) (auto simp add: lowestF_def)

lemma searchLoop_step:
  "it < maxIterations \<Longrightarrow> lowestF os = Some (k, n) \<Longrightarrow> PathNode.position n \<noteq> goal \<Longrightarrow>
   searchLoop gs goal cp os cl it =
     searchLoop gs goal cp
       (fold (exploreNeighbor gs goal cp (insert k cl) n) (getNeighbors (PathNode.position n))
          (AList.delete k os))
       (insert k cl) (it + 1)"
  by (subst searchLoop.simps) (auto simp add: Position_eq_iff lowestF_def)


lemma searchLoop_goal:
  "fst (searchLoop gs goal cp os cl it) = Some n \<Longrightarrow> PathNode.position n = goal"
proof (induction gs goal cp os cl it rule: searchLoop.induct)
  case (1 gs goal cp os cl it)
  show ?case
  proof (cases "length os > 0 \<and> it < maxIterations")
    case False
    then have "os = [] \<or> maxIterations \<le> it" by auto
    then show ?thesis using "1.prems" by (simp add: searchLoop_stop)
  next
    case True
    then obtain k m where low: "lowestF os = Some (k, m)"
      using lowestF_nonempty [of os] by (cases "lowestF os") auto
    show ?thesis
    proof (cases "PathNode.position m = goal")
      case yes: True
      then show ?thesis using True low "1.prems" by (simp add: searchLoop_found)
    next
      case no: False
      then have no': "\<not> (x (PathNode.position m) = x goal \<and> y (PathNode.position m) = y goal)"
        by (simp add: Position_eq_iff)
      have "fst (searchLoop gs goal cp
               (fold (exploreNeighbor gs goal cp (insert k cl) m)
                  (getNeighbors (PathNode.position m)) (AList.delete k os))
               (insert k cl) (it + 1)) = Some n"
        using True low no "1.prems" by (simp add: searchLoop_step)
      from "1.IH" [OF True low refl no' this] show ?thesis .
    qed
  qed
qed

lemma findPath_cases:
  "(\<exists>n. PathNode.position n = goal \<and> findPath gs start goal fu cp = reconstructPath gs n)
   \<or> findPath gs start goal fu cp = failedPath"
proof (cases "fst (searchLoop gs goal cp [(positionToKey start, startNode start goal fu)] {} 0)")
  case None
  then show ?thesis by (simp add: findPath_def)
next
  case (Some n)
  then show ?thesis using searchLoop_goal [OF Some] by (auto simp add: findPath_def)
qed

lemma findPath_success:
  "success (findPath gs start goal fu cp) \<Longrightarrow>
   \<exists>n. PathNode.position n = goal \<and> findPath gs start goal fu cp = reconstructPath gs n"
  using findPath_cases [of goal gs start fu cp] by (auto simp add: failedPath_def)

lemma findPath_cost:
  "success (findPath gs start goal fu cp) \<Longrightarrow>
   nodes (findPath gs start goal fu cp) \<noteq> []
   \<and> totalCost (findPath gs start goal fu cp) = enat (length (nodes (findPath gs start goal fu cp)) - 1)"
proof -
  assume "success (findPath gs start goal fu cp)"
  then obtain n where "findPath gs start goal fu cp = reconstructPath gs n"
    using findPath_success by blast
  then show ?thesis
    using reconstructPath_shape [of gs n] length_chain [of n] by auto
qed

lemma tryPellet_costOk:
  assumes "costOk (fst best)"
  shows "costOk (fst (tryPellet gs start goal fu pl best))"
proof -
  let ?p1 = "findPath gs start (Pellet.position pl) fu False"
  show ?thesis
  proof (cases "success ?p1")
    case False
    then show ?thesis using assms by (simp add: tryPellet_def)
  next
    case True
    from findPath_cost [OF True] obtain c1 where
      c1: "totalCost ?p1 = enat c1" "length (nodes ?p1) = c1 + 1"
      by (cases "nodes ?p1") auto
    let ?p2 = "findPath gs (Pellet.position pl) goal
                 (min (maxShipFuel GAME_CONFIG) (fu - int c1 + Pellet.fuel pl)) True"
    show ?thesis
    proof (cases "success ?p2")
      case False
      then show ?thesis using assms True c1 by (simp add: tryPellet_def Let_def)
    next
      case p2: True
      from findPath_cost [OF p2] obtain c2 where
        c2: "totalCost ?p2 = enat c2" "length (nodes ?p2) = c2 + 1"
        by (cases "nodes ?p2") auto
      show ?thesis
        using assms True p2 c1 c2
        by (auto simp add: tryPellet_def Let_def costOk_def)
    qed
  qed
qed

lemma fold_tryPellet_costOk:
  "costOk (fst best) \<Longrightarrow> costOk (fst (fold (tryPellet gs start goal fu) ps best))"
  by (induction ps arbitrary: best) (simp_all add: tryPellet_costOk)

text \<open>
  Claim C6. A successful path of \<^verbatim>\<open>findPath\<close> or of \<^verbatim>\<open>findPathWithRefueling\<close> has
  at least one node, and its total cost is the number of its nodes minus 1. For the
  path composed of two legs the first leg gives its nodes without the last one, which is
  the first node of the second leg.
\<close>

theorem path_cost_is_length:
  "(success (findPath gs start goal fu cp) \<longrightarrow>
      nodes (findPath gs start goal fu cp) \<noteq> []
      \<and> totalCost (findPath gs start goal fu cp)
          = enat (length (nodes (findPath gs start goal fu cp)) - 1))
   \<and> (success (findPathWithRefueling gs start goal fu) \<longrightarrow>
      nodes (findPathWithRefueling gs start goal fu) \<noteq> []
      \<and> totalCost (findPathWithRefueling gs start goal fu)
          = enat (length (nodes (findPathWithRefueling gs start goal fu)) - 1))"
proof -
  have direct: "costOk (findPath gs start goal fu True)"
    using findPath_cost [of gs start goal fu True] by (simp add: costOk_def)
  have "costOk (findPathWithRefueling gs start goal fu)"
    using direct fold_tryPellet_costOk [of "(findPath gs start goal fu True, \<infinity>)"]
    by (simp add: findPathWithRefueling_def Let_def)
  then show ?thesis
    using findPath_cost [of gs start goal fu cp] by (simp add: costOk_def)
qed













section \<open>Replay of the paths of the search\<close>





































section \<open>Evaluation of the search on concrete inputs\<close>

lemmas search_simps = findPath_def startNode_def searchLoop.simps lowestF_def pickLower_def
  exploreNeighbor_def
  getNeighbors_list hasPelletOnPath_def maxIterations_def reconstructPath_def failedPath_def
  Position_eq_iff Let_def

section \<open>SpawnOptimizer\<close>

lemma guaranteedPath_evaluate:
  "guaranteedPath (evaluateSpawnPosition gs pos)
     = success (findPathWithRefueling gs pos \<lparr>x = 0, y = 0\<rparr> (initialFuel GAME_CONFIG))"
  by (simp add: evaluateSpawnPosition_def Let_def)

lemma evaluateLoop_infeasible:
  "\<forall>pos \<in> set cands. \<not> guaranteedPath (evaluateSpawnPosition gs pos) \<Longrightarrow>
   evaluateLoop gs cands ev pf te = ev"
  by (induction cands arbitrary: pf te) (simp_all add: Let_def)

lemma fallbackStep_eq:
  "fallbackStep gs c (b, m) =
     (if length (getPelletsWithinDistance gs c 15) > m
      then (Some (fallbackCandidate gs c), length (getPelletsWithinDistance gs c 15))
      else (b, m))"
  by (simp add: fallbackStep_def fallbackCandidate_def Let_def)

lemma fold_fallbackStep:
  "fold (fallbackStep gs) cands (b, m) = (b', m') \<Longrightarrow>
     m \<le> m' \<and> (\<forall>pos \<in> set cands. length (getPelletsWithinDistance gs pos 15) \<le> m')
     \<and> (if m' = m then b' = b
         else \<exists>pos \<in> set cands. length (getPelletsWithinDistance gs pos 15) = m'
                \<and> b' = Some (fallbackCandidate gs pos))"
proof (induction cands arbitrary: b m)
  case Nil
  then show ?case by simp
next
  case (Cons c cands)
  let ?n = "length (getPelletsWithinDistance gs c 15)"
  show ?case
  proof (cases "?n > m")
    case True
    then have "fold (fallbackStep gs) cands (Some (fallbackCandidate gs c), ?n) = (b', m')"
      using Cons.prems by (simp add: fallbackStep_eq)
    from Cons.IH [OF this] True show ?thesis
      by (auto split: if_splits)
  next
    case False
    then have "fold (fallbackStep gs) cands (b, m) = (b', m')"
      using Cons.prems by (simp add: fallbackStep_eq)
    from Cons.IH [OF this] False show ?thesis
      by (auto split: if_splits)
  qed
qed

text \<open>
  Claim C2, as the specification states it, fails: in a world without pellets, where
  no candidate has a path to the origin, the fallback finds no candidate with a pellet
  nearby and the result is none. The two candidates are the points of the first radial
  ring (distance 50) at the angles 0 and 90.
\<close>

theorem findOptimalSpawnPosition_counterexample:
  "\<not> success (findPathWithRefueling emptyGameState \<lparr>x = 50, y = 0\<rparr> \<lparr>x = 0, y = 0\<rparr> 5)
   \<and> \<not> success (findPathWithRefueling emptyGameState \<lparr>x = 0, y = 50\<rparr> \<lparr>x = 0, y = 0\<rparr> 5)
   \<and> findOptimalSpawnPosition emptyGameState [\<lparr>x = 50, y = 0\<rparr>, \<lparr>x = 0, y = 50\<rparr>] = None"
  by (simp add: findOptimalSpawnPosition_def evaluateSpawnPosition_def findPathWithRefueling_def
      findFallbackSpawnPosition_def fallbackStep_def getPelletsWithinDistance_def
      search_simps state_simps)

text \<open>
  Claim C2, amended. When no candidate has a feasible path to the origin,
  \<^verbatim>\<open>findOptimalSpawnPosition\<close> returns the result of the fallback. That result is none
  when no candidate has a pellet within distance 15 (so in a world without pellets);
  otherwise it is a candidate whose flag \<open>guaranteedPath\<close> is false and whose count of
  pellets within distance 15 is the highest among the candidates.
\<close>

theorem findOptimalSpawnPosition_fallback:
  assumes "\<forall>pos \<in> set cands.
             \<not> success (findPathWithRefueling gs pos \<lparr>x = 0, y = 0\<rparr> (initialFuel GAME_CONFIG))"
  shows "findOptimalSpawnPosition gs cands = findFallbackSpawnPosition gs cands
         \<and> (if \<forall>pos \<in> set cands. getPelletsWithinDistance gs pos 15 = []
            then findOptimalSpawnPosition gs cands = None
            else \<exists>c. findOptimalSpawnPosition gs cands = Some c
                   \<and> \<not> guaranteedPath c
                   \<and> SpawnCandidate.position c \<in> set cands
                   \<and> nearbyPellets c = length (getPelletsWithinDistance gs (SpawnCandidate.position c) 15)
                   \<and> (\<forall>pos \<in> set cands.
                         length (getPelletsWithinDistance gs pos 15) \<le> nearbyPellets c))"
proof -
  have eq: "findOptimalSpawnPosition gs cands = findFallbackSpawnPosition gs cands"
    using assms by (simp add: findOptimalSpawnPosition_def evaluateLoop_infeasible guaranteedPath_evaluate)
  obtain b' m' where f: "fold (fallbackStep gs) cands (None, 0) = (b', m')"
    by (cases "fold (fallbackStep gs) cands (None, 0)") auto
  note inv = fold_fallbackStep [OF f]
  have res: "findFallbackSpawnPosition gs cands = b'"
    by (simp add: findFallbackSpawnPosition_def f)
  show ?thesis
  proof (cases "\<forall>pos \<in> set cands. getPelletsWithinDistance gs pos 15 = []")
    case True
    then have "m' = 0" using inv by (auto split: if_splits)
    then have "b' = None" using inv by simp
    then show ?thesis using True eq res by simp
  next
    case False
    then obtain p where "p \<in> set cands" "length (getPelletsWithinDistance gs p 15) > 0" by auto
    moreover have "\<forall>pos \<in> set cands. length (getPelletsWithinDistance gs pos 15) \<le> m'"
      using inv by blast
    ultimately have "length (getPelletsWithinDistance gs p 15) \<le> m'" by blast
    with \<open>length (getPelletsWithinDistance gs p 15) > 0\<close> have "m' \<noteq> 0" by linarith
    then obtain pos where "pos \<in> set cands" "length (getPelletsWithinDistance gs pos 15) = m'"
      "b' = Some (fallbackCandidate gs pos)" using inv by auto
    then show ?thesis using False eq res inv
      by (auto simp add: fallbackCandidate_def)
  qed
qed

theorem findOptimalSpawnPosition_fallback_witness:
  "\<not> success (findPathWithRefueling
        (setPellets [\<lparr>Pellet.position = \<lparr>x = 52, y = 0\<rparr>, fuel = 1, utxo = 0\<rparr>] emptyGameState)
        \<lparr>x = 50, y = 0\<rparr> \<lparr>x = 0, y = 0\<rparr> 5)
   \<and> \<not> success (findPathWithRefueling
        (setPellets [\<lparr>Pellet.position = \<lparr>x = 52, y = 0\<rparr>, fuel = 1, utxo = 0\<rparr>] emptyGameState)
        \<lparr>x = 0, y = 50\<rparr> \<lparr>x = 0, y = 0\<rparr> 5)
   \<and> findOptimalSpawnPosition
        (setPellets [\<lparr>Pellet.position = \<lparr>x = 52, y = 0\<rparr>, fuel = 1, utxo = 0\<rparr>] emptyGameState)
        [\<lparr>x = 50, y = 0\<rparr>, \<lparr>x = 0, y = 50\<rparr>]
      = Some \<lparr>position = \<lparr>x = 50, y = 0\<rparr>, score = Num 1, guaranteedPath = False,
               pathToOrigin = None, nearbyPellets = 1, totalMoves = enat 50\<rparr>"
proof -
  let ?gs = "setPellets [\<lparr>Pellet.position = \<lparr>x = 52, y = 0\<rparr>, fuel = 1, utxo = 0\<rparr>] emptyGameState"
  have a: "\<not> success (findPathWithRefueling ?gs \<lparr>x = 50, y = 0\<rparr> \<lparr>x = 0, y = 0\<rparr> 5)"
    by (simp add: findPathWithRefueling_def tryPellet_def search_simps state_simps eval_nat_numeral)
  have b: "\<not> success (findPathWithRefueling ?gs \<lparr>x = 0, y = 50\<rparr> \<lparr>x = 0, y = 0\<rparr> 5)"
    by (simp add: findPathWithRefueling_def tryPellet_def search_simps state_simps)
  have h: "\<forall>pos \<in> set [\<lparr>x = 50, y = 0\<rparr>, \<lparr>x = 0, y = 50\<rparr>].
             \<not> success (findPathWithRefueling ?gs pos \<lparr>x = 0, y = 0\<rparr> (initialFuel GAME_CONFIG))"
    using a b by (simp add: GAME_CONFIG_def)
  have c: "findFallbackSpawnPosition ?gs [\<lparr>x = 50, y = 0\<rparr>, \<lparr>x = 0, y = 50\<rparr>]
        = Some \<lparr>position = \<lparr>x = 50, y = 0\<rparr>, score = Num 1, guaranteedPath = False,
               pathToOrigin = None, nearbyPellets = 1, totalMoves = enat 50\<rparr>"
    by (simp add: findFallbackSpawnPosition_def fallbackStep_def getPelletsWithinDistance_def
        calculateDistance_def state_simps)
  show ?thesis using a b c findOptimalSpawnPosition_fallback [OF h] by simp
qed

section \<open>Witnesses of the claims on paths\<close>

lemma twoLeg_path:
  "findPathWithRefueling
     (setPellets [\<lparr>Pellet.position = \<lparr>x = 8, y = 0\<rparr>, fuel = 5, utxo = 0\<rparr>,
                  \<lparr>Pellet.position = \<lparr>x = 4, y = 0\<rparr>, fuel = 5, utxo = 2\<rparr>] emptyGameState)
     \<lparr>x = 10, y = 0\<rparr> \<lparr>x = 0, y = 0\<rparr> 2
   = \<lparr>nodes = [\<lparr>x = 10, y = 0\<rparr>, \<lparr>x = 9, y = 0\<rparr>, \<lparr>x = 8, y = 0\<rparr>, \<lparr>x = 7, y = 0\<rparr>,
                \<lparr>x = 6, y = 0\<rparr>, \<lparr>x = 5, y = 0\<rparr>, \<lparr>x = 4, y = 0\<rparr>, \<lparr>x = 3, y = 0\<rparr>,
                \<lparr>x = 2, y = 0\<rparr>, \<lparr>x = 1, y = 0\<rparr>, \<lparr>x = 0, y = 0\<rparr>],
      totalCost = enat 10, fuelStops = [\<lparr>x = 8, y = 0\<rparr>, \<lparr>x = 4, y = 0\<rparr>], success = True\<rparr>"
  by (simp add: findPathWithRefueling_def tryPellet_def search_simps state_simps eval_nat_numeral)

lemma direct_path:
  "findPath emptyGameState \<lparr>x = 3, y = 1\<rparr> \<lparr>x = 0, y = 0\<rparr> 5 True
   = \<lparr>nodes = [\<lparr>x = 3, y = 1\<rparr>, \<lparr>x = 2, y = 0\<rparr>, \<lparr>x = 1, y = 0\<rparr>, \<lparr>x = 0, y = 0\<rparr>],
      totalCost = enat 3, fuelStops = [], success = True\<rparr>"
  by (simp add: search_simps state_simps eval_nat_numeral)

theorem path_cost_is_length_witness:
  "success (findPath emptyGameState \<lparr>x = 3, y = 1\<rparr> \<lparr>x = 0, y = 0\<rparr> 5 True)
   \<and> totalCost (findPath emptyGameState \<lparr>x = 3, y = 1\<rparr> \<lparr>x = 0, y = 0\<rparr> 5 True) = enat (4 - 1)
   \<and> success (findPathWithRefueling
        (setPellets [\<lparr>Pellet.position = \<lparr>x = 8, y = 0\<rparr>, fuel = 5, utxo = 0\<rparr>,
                     \<lparr>Pellet.position = \<lparr>x = 4, y = 0\<rparr>, fuel = 5, utxo = 2\<rparr>] emptyGameState)
        \<lparr>x = 10, y = 0\<rparr> \<lparr>x = 0, y = 0\<rparr> 2)
   \<and> totalCost (findPathWithRefueling
        (setPellets [\<lparr>Pellet.position = \<lparr>x = 8, y = 0\<rparr>, fuel = 5, utxo = 0\<rparr>,
                     \<lparr>Pellet.position = \<lparr>x = 4, y = 0\<rparr>, fuel = 5, utxo = 2\<rparr>] emptyGameState)
        \<lparr>x = 10, y = 0\<rparr> \<lparr>x = 0, y = 0\<rparr> 2) = enat (11 - 1)"
  using path_cost_is_length [of emptyGameState "\<lparr>x = 3, y = 1\<rparr>" "\<lparr>x = 0, y = 0\<rparr>" 5 True]
    path_cost_is_length [of
      "setPellets [\<lparr>Pellet.position = \<lparr>x = 8, y = 0\<rparr>, fuel = 5, utxo = 0\<rparr>,
                   \<lparr>Pellet.position = \<lparr>x = 4, y = 0\<rparr>, fuel = 5, utxo = 2\<rparr>] emptyGameState"
      "\<lparr>x = 10, y = 0\<rparr>" "\<lparr>x = 0, y = 0\<rparr>" 2]
  by (simp add: twoLeg_path direct_path)



section \<open>Replay: the claim, where it fails and where it holds\<close>



text \<open>
  The hypotheses of the amended claim on the fuel are needed as well: a search without
  pellets from (10,0) with fuel 10, above the capacity of 5, plans ten steps, and the
  replay, which takes the pellet at (9,0), is cut to the capacity there and runs out
  of fuel.
\<close>

lemma overCapacity_path:
  "findPath
     (setPellets [\<lparr>Pellet.position = \<lparr>x = 9, y = 0\<rparr>, fuel = 1, utxo = 0\<rparr>] emptyGameState)
     \<lparr>x = 10, y = 0\<rparr> \<lparr>x = 0, y = 0\<rparr> 10 False
   = \<lparr>nodes = [\<lparr>x = 10, y = 0\<rparr>, \<lparr>x = 9, y = 0\<rparr>, \<lparr>x = 8, y = 0\<rparr>, \<lparr>x = 7, y = 0\<rparr>,
                \<lparr>x = 6, y = 0\<rparr>, \<lparr>x = 5, y = 0\<rparr>, \<lparr>x = 4, y = 0\<rparr>, \<lparr>x = 3, y = 0\<rparr>,
                \<lparr>x = 2, y = 0\<rparr>, \<lparr>x = 1, y = 0\<rparr>, \<lparr>x = 0, y = 0\<rparr>],
      totalCost = enat 10, fuelStops = [\<lparr>x = 9, y = 0\<rparr>], success = True\<rparr>"
  by (simp add: search_simps state_simps eval_nat_numeral)

lemma overCapacity_replay_fails:
  "\<not> simulatePath
      (setPellets [\<lparr>Pellet.position = \<lparr>x = 9, y = 0\<rparr>, fuel = 1, utxo = 0\<rparr>] emptyGameState)
      (nodes (findPath
         (setPellets [\<lparr>Pellet.position = \<lparr>x = 9, y = 0\<rparr>, fuel = 1, utxo = 0\<rparr>] emptyGameState)
         \<lparr>x = 10, y = 0\<rparr> \<lparr>x = 0, y = 0\<rparr> 10 False)) 10"
  unfolding overCapacity_path
  by (simp add: simulatePath_def state_simps Position_eq_iff)





end
